theory Spec2Isabelle
  imports Complex_Main "HOL-Library.AList" "HOL-Library.Multiset"
begin

section \<open>Numbers, errors and store responses\<close>

text \<open>
  The exchange is TypeScript. A JavaScript \<open>number\<close> is modelled as an exact rational:
  prices, balances, margins and quantities are computed without rounding, and \<open>NaN\<close> and
  the infinities are left out. A \<open>Date\<close> is its \<open>getTime()\<close>, an integer of
  milliseconds. A rejected promise or a thrown \<open>Error\<close> is the \<open>Inl\<close> branch of a sum;
  a function that mutates the service returns the service after the call, also when it
  throws.
\<close>

datatype error =
    StoreError
  | OutletNotFound
  | DonutTypeNotFound string
  | InsufficientInventory rat string rat
  | ConnectionError

text \<open>
  The answer of the store's \<open>executeReadQuery\<close>: only answers of type
  \<open>conceptDocuments\<close> carry documents the repositories read.
\<close>

datatype answerType = conceptDocuments | conceptRows | ok

record 'd response =
  answerType :: answerType
  answers :: "'d list"

section \<open>Outlets: \<open>OutletRepository\<close>\<close>

text \<open>
  A stored outlet document, as \<open>fetch { $outlet.* }\<close> returns it. An attribute the code
  tests for absence is an option (\<open>None\<close> is JavaScript's \<open>undefined\<close>).
\<close>

record outlet_doc =
  doc_outlet_id :: string
  doc_outlet_name :: string
  doc_location :: string
  doc_balance :: rat
  doc_margin_percent :: "rat option"
  doc_outlet_open :: "bool option"
  doc_created_at :: int

record Outlet =
  outletId :: string
  outletName :: string
  location :: string
  balance :: rat
  marginPercent :: rat
  isOpen :: bool
  createdAt :: int

text \<open>
  The argument of \<open>create\<close>, an \<open>Omit<Outlet, 'createdAt'>\<close>. The code tests
  \<open>isOpen\<close> against \<open>undefined\<close>, so that field is an option.
\<close>

record OutletInput =
  in_outletId :: string
  in_outletName :: string
  in_location :: string
  in_balance :: rat
  in_marginPercent :: rat
  in_isOpen :: "bool option"

text \<open>
  Modelled from the spec: the enums \<open>OrderSide\<close> and \<open>OrderStatus\<close> of
  \<open>models/types.ts\<close>, which is not among the sources. The repositories use
  \<open>OrderSide.BUY\<close>, \<open>OrderSide.SELL\<close>, \<open>OrderStatus.ACTIVE\<close> and
  \<open>OrderStatus.PARTIALLY_FILLED\<close>; the two terminal statuses are those of the data model
  of the specification. \<open>parseStatus\<close> is a cast, so a stored status is a member of the
  enum.
\<close>

datatype OrderSide = BUY | SELL

datatype OrderStatus = ACTIVE | PARTIALLY_FILLED | FILLED | CANCELLED

text \<open>
  The durable store, as far as the exchange service reads and writes it. An order row is
  an order together with its \<open>order-placement\<close>, which is how every read query of
  \<open>OrderRepository\<close> sees an order.
\<close>

record order_row =
  row_orderId :: string
  row_side :: OrderSide
  row_donutTypeId :: string
  row_outletId :: string
  row_quantity :: rat
  row_pricePerUnit :: rat
  row_status :: OrderStatus
  row_createdAt :: int
  row_updatedAt :: int

record store =
  outlets :: "outlet_doc list"
  orders :: "order_row list"

text \<open>\<open>x || 25.0\<close> on a number that may be absent: \<open>undefined\<close> and \<open>0\<close> are falsy.\<close>

definition orDefaultMargin :: "rat option \<Rightarrow> rat" where
  "orDefaultMargin m = (case m of None \<Rightarrow> 25 | Some v \<Rightarrow> (if v = 0 then 25 else v))"

text \<open>\<open>x !== undefined ? x : true\<close>\<close>

definition orDefaultOpen :: "bool option \<Rightarrow> bool" where
  "orDefaultOpen b = (case b of None \<Rightarrow> True | Some v \<Rightarrow> v)"

text \<open>
  The two read queries of the repository against the store. \<open>readOk\<close> is whether the
  query helper is obtained and the store answers (nothing here is inside a \<open>try\<close>, so
  either failure rejects the call); a \<open>fetch\<close> answers with documents.
\<close>

definition queryOutletById :: "bool \<Rightarrow> store \<Rightarrow> string \<Rightarrow> error + outlet_doc response" where
  "queryOutletById readOk st oid =
     (if readOk
      then Inr \<lparr>answerType = conceptDocuments,
                answers = filter (\<lambda>d. doc_outlet_id d = oid) (outlets st)\<rparr>
      else Inl StoreError)"

definition queryAllOutlets :: "bool \<Rightarrow> store \<Rightarrow> error + outlet_doc response" where
  "queryAllOutlets readOk st =
     (if readOk
      then Inr \<lparr>answerType = conceptDocuments, answers = outlets st\<rparr>
      else Inl StoreError)"

text \<open>
  \<open>OutletRepository.create\<close>: the document written carries the defaulted margin and open
  flag; the value returned is the spread of the argument together with \<open>createdAt\<close>
  (the pair below). The two readings of the clock are one \<open>now\<close>.
\<close>

definition OutletRepository_create ::
    "bool \<Rightarrow> int \<Rightarrow> store \<Rightarrow> OutletInput \<Rightarrow> (error + OutletInput \<times> int) \<times> store" where
  "OutletRepository_create writeOk now st outlet =
     (let marginPercent' = (if in_marginPercent outlet = 0 then 25 else in_marginPercent outlet);
          isOpen' = (case in_isOpen outlet of None \<Rightarrow> True | Some b \<Rightarrow> b)
      in if writeOk
         then (Inr (outlet, now),
               st\<lparr>outlets := outlets st @
                  [\<lparr>doc_outlet_id = in_outletId outlet,
                    doc_outlet_name = in_outletName outlet,
                    doc_location = in_location outlet,
                    doc_balance = in_balance outlet,
                    doc_margin_percent = Some marginPercent',
                    doc_outlet_open = Some isOpen',
                    doc_created_at = now\<rparr>]\<rparr>)
         else (Inl StoreError, st))"

definition outletOfDoc :: "string \<Rightarrow> outlet_doc \<Rightarrow> Outlet" where
  "outletOfDoc oid doc =
     \<lparr>outletId = oid,
      outletName = doc_outlet_name doc,
      location = doc_location doc,
      balance = doc_balance doc,
      marginPercent = orDefaultMargin (doc_margin_percent doc),
      isOpen = orDefaultOpen (doc_outlet_open doc),
      createdAt = doc_created_at doc\<rparr>"

text \<open>\<open>OutletRepository.findById\<close>, on the answer of its read query.\<close>

definition OutletRepository_findById ::
    "string \<Rightarrow> error + outlet_doc response \<Rightarrow> error + Outlet option" where
  "OutletRepository_findById oid r =
     (case r of
        Inl e \<Rightarrow> Inl e
      | Inr resp \<Rightarrow>
          (if answerType resp = conceptDocuments \<and> length (answers resp) > 0
           then Inr (Some (outletOfDoc oid (hd (answers resp))))
           else Inr None))"

text \<open>\<open>OutletRepository.findAll\<close>, on the answer of its read query.\<close>

definition OutletRepository_findAll :: "error + outlet_doc response \<Rightarrow> error + Outlet list" where
  "OutletRepository_findAll r =
     (case r of
        Inl e \<Rightarrow> Inl e
      | Inr resp \<Rightarrow>
          (if answerType resp = conceptDocuments
           then Inr (map (\<lambda>doc. outletOfDoc (doc_outlet_id doc) doc) (answers resp))
           else Inr []))"

text \<open>\<open>OutletRepository.updateBalance\<close>: every outlet with the id gets the balance.\<close>

definition OutletRepository_updateBalance ::
    "bool \<Rightarrow> store \<Rightarrow> string \<Rightarrow> rat \<Rightarrow> error + store" where
  "OutletRepository_updateBalance writeOk st oid newBalance =
     (if writeOk
      then Inr (st\<lparr>outlets :=
             map (\<lambda>d. if doc_outlet_id d = oid then d\<lparr>doc_balance := newBalance\<rparr> else d)
                 (outlets st)\<rparr>)
      else Inl StoreError)"

section \<open>The exchange service: inventory, stats and customer sales\<close>

record OutletSalesStats =
  customerSalesRevenue :: rat
  customerSalesCount :: rat
  exchangeSalesRevenue :: rat
  exchangeSalesCount :: rat

record CustomerSale =
  sale_saleId :: string
  sale_outletId :: string
  sale_donutTypeId :: string
  sale_quantity :: rat
  costBasis :: rat
  revenue :: rat
  profit :: rat
  sale_executedAt :: int

text \<open>
  A JavaScript \<open>Map\<close> is an association list: \<open>get\<close> is \<open>map_of\<close>, and \<open>set\<close> is
  \<open>AList.update\<close>, which replaces the value of a present key in place and appends an
  absent one, as \<open>Map.set\<close> does. The inventory table of the store is written through
  but never read during a run (a failed write is logged and retried), so only the cache
  is kept.
\<close>

record exchange =
  db :: store
  salesStatsCache :: "(string \<times> OutletSalesStats) list"
  inventoryCache :: "(string \<times> (string \<times> rat) list) list"

definition getOrCreateStats :: "exchange \<Rightarrow> string \<Rightarrow> OutletSalesStats \<times> exchange" where
  "getOrCreateStats s oid =
     (case map_of (salesStatsCache s) oid of
        None \<Rightarrow>
          (let fresh = \<lparr>customerSalesRevenue = 0, customerSalesCount = 0,
                        exchangeSalesRevenue = 0, exchangeSalesCount = 0\<rparr>
           in (fresh, s\<lparr>salesStatsCache := AList.update oid fresh (salesStatsCache s)\<rparr>))
      | Some stats \<Rightarrow> (stats, s))"

definition getInventoryFromCache :: "exchange \<Rightarrow> string \<Rightarrow> string \<Rightarrow> rat" where
  "getInventoryFromCache s oid did =
     (case map_of (inventoryCache s) oid of
        None \<Rightarrow> 0
      | Some outletInventory \<Rightarrow>
          (case map_of outletInventory did of
             None \<Rightarrow> 0
           | Some q \<Rightarrow> (if q = 0 then 0 else q)))"

definition updateCache :: "exchange \<Rightarrow> string \<Rightarrow> string \<Rightarrow> rat \<Rightarrow> exchange" where
  "updateCache s oid did quantity =
     (let c = (case map_of (inventoryCache s) oid of
                 None \<Rightarrow> AList.update oid [] (inventoryCache s)
               | Some _ \<Rightarrow> inventoryCache s);
          outletInventory = (case map_of c oid of None \<Rightarrow> [] | Some m \<Rightarrow> m)
      in s\<lparr>inventoryCache :=
             AList.update oid (AList.update did quantity outletInventory) c\<rparr>)"

definition addInventory :: "exchange \<Rightarrow> string \<Rightarrow> string \<Rightarrow> rat \<Rightarrow> exchange" where
  "addInventory s oid did quantity =
     (let current = getInventoryFromCache s oid did;
          newQty = current + quantity
      in updateCache s oid did newQty)"

definition removeInventory :: "exchange \<Rightarrow> string \<Rightarrow> string \<Rightarrow> rat \<Rightarrow> bool \<times> exchange" where
  "removeInventory s oid did quantity =
     (let current = getInventoryFromCache s oid did
      in if current < quantity then (False, s)
         else (let newQty = current - quantity
               in (True, updateCache s oid did newQty)))"

text \<open>
  What one call of \<open>sellToCustomer\<close> meets outside the service: whether the store answers
  the outlet read and the balance write, and the id and time the sale is stamped with
  (\<open>Date.now()\<close>, \<open>Math.random()\<close>). The sale record is handed to the store without
  waiting and a failure there is only logged, so the table of sales is not kept.
\<close>

record sale_env =
  outletReadOk :: bool
  balanceWriteOk :: bool
  newSaleId :: string
  saleTime :: int

definition sellToCustomer ::
    "sale_env \<Rightarrow> exchange \<Rightarrow> string \<Rightarrow> string \<Rightarrow> rat \<Rightarrow> (error + CustomerSale) \<times> exchange" where
  "sellToCustomer env s oid did quantity =
     (case OutletRepository_findById oid (queryOutletById (outletReadOk env) (db s) oid) of
        Inl e \<Rightarrow> (Inl e, s)
      | Inr None \<Rightarrow> (Inl OutletNotFound, s)
      | Inr (Some outlet) \<Rightarrow>
          (let available = getInventoryFromCache s oid did
           in if available < quantity
              then (Inl (InsufficientInventory available did quantity), s)
              else
                (let s1 = snd (removeInventory s oid did quantity);
                     costBasis' = 2 * quantity;
                     revenue' = costBasis' * (1 + marginPercent outlet / 100);
                     profit' = revenue' - costBasis'
                 in case OutletRepository_updateBalance (balanceWriteOk env) (db s1) oid
                           (balance outlet + revenue') of
                      Inl e \<Rightarrow> (Inl e, s1)
                    | Inr db' \<Rightarrow>
                        (let s2 = s1\<lparr>db := db'\<rparr>;
                             (stats, s3) = getOrCreateStats s2 oid;
                             stats' = stats\<lparr>customerSalesRevenue :=
                                               customerSalesRevenue stats + revenue',
                                            customerSalesCount := customerSalesCount stats + 1\<rparr>;
                             s4 = s3\<lparr>salesStatsCache :=
                                       AList.update oid stats' (salesStatsCache s3)\<rparr>;
                             sale = \<lparr>sale_saleId = newSaleId env,
                                     sale_outletId = oid,
                                     sale_donutTypeId = did,
                                     sale_quantity = quantity,
                                     costBasis = costBasis',
                                     revenue = revenue',
                                     profit = profit',
                                     sale_executedAt = saleTime env\<rparr>
                         in (Inr sale, s4)))))"

text \<open>The stats entry of an outlet as \<open>getOrCreateStats\<close> reads it.\<close>

definition statsOf :: "exchange \<Rightarrow> string \<Rightarrow> OutletSalesStats" where
  "statsOf s oid = fst (getOrCreateStats s oid)"

text \<open>
  The state of the spec's customer-sale scenario: one outlet with margin 25 and balance
  100 holding 10 units of product \<open>P\<close>, and a store that answers.
\<close>

definition shop :: exchange where
  "shop =
     \<lparr>db = \<lparr>outlets = [\<lparr>doc_outlet_id = ''o1'', doc_outlet_name = ''Corner'',
                         doc_location = ''North'', doc_balance = 100,
                         doc_margin_percent = Some 25, doc_outlet_open = Some True,
                         doc_created_at = 0\<rparr>],
             orders = []\<rparr>,
      salesStatsCache = [],
      inventoryCache = [(''o1'', [(''P'', 10)])]\<rparr>"

definition storeUp :: sale_env where
  "storeUp = \<lparr>outletReadOk = True, balanceWriteOk = True, newSaleId = ''sale-1'', saleTime = 1\<rparr>"

section \<open>Trade events and runs of the service\<close>

text \<open>
  The trade event of the matching engine, with the fields the handler registered in
  \<open>ExchangeService.start\<close> reads.
\<close>

record TradeEvent =
  sellerOutletId :: string
  buyerOutletId :: string
  ev_donutTypeId :: string
  ev_quantity :: rat
  totalAmount :: rat

definition onTradeExecuted :: "exchange \<Rightarrow> TradeEvent \<Rightarrow> exchange" where
  "onTradeExecuted s event =
     (let (sellerStats, s1) = getOrCreateStats s (sellerOutletId event);
          sellerStats' = sellerStats\<lparr>exchangeSalesRevenue :=
                                        exchangeSalesRevenue sellerStats + totalAmount event,
                                      exchangeSalesCount := exchangeSalesCount sellerStats + 1\<rparr>;
          s2 = s1\<lparr>salesStatsCache :=
                    AList.update (sellerOutletId event) sellerStats' (salesStatsCache s1)\<rparr>
      in addInventory s2 (buyerOutletId event) (ev_donutTypeId event) (ev_quantity event))"

text \<open>
  The operations that write inventory and balances, and the states a run of them passes
  through.
\<close>

datatype operation =
    Trade TradeEvent
  | Remove string string rat
  | Sell sale_env string string rat

fun quantityOf :: "operation \<Rightarrow> rat" where
  "quantityOf (Trade event) = ev_quantity event"
| "quantityOf (Remove oid did quantity) = quantity"
| "quantityOf (Sell env oid did quantity) = quantity"

fun perform :: "exchange \<Rightarrow> operation \<Rightarrow> exchange" where
  "perform s (Trade event) = onTradeExecuted s event"
| "perform s (Remove oid did quantity) = snd (removeInventory s oid did quantity)"
| "perform s (Sell env oid did quantity) = snd (sellToCustomer env s oid did quantity)"

fun observed :: "exchange \<Rightarrow> operation list \<Rightarrow> exchange list" where
  "observed s [] = [s]"
| "observed s (x # xs) = s # observed (perform s x) xs"

definition inventoryNonNegative :: "exchange \<Rightarrow> bool" where
  "inventoryNonNegative s =
     list_all (\<lambda>(oid, cells). list_all (\<lambda>(did, q). 0 \<le> q) cells) (inventoryCache s)"

definition balancesNonNegative :: "exchange \<Rightarrow> bool" where
  "balancesNonNegative s = list_all (\<lambda>d. 0 \<le> doc_balance d) (outlets (db s))"

text \<open>
  No margin, as the repository reads it, is below -100: the revenue of a sale of a
  positive quantity, \<open>2 * quantity * (1 + marginPercent / 100)\<close>, is then not negative.
  The margins of the data model, which are not negative, are of this kind.
\<close>

definition marginsNotBelowMinus100 :: "exchange \<Rightarrow> bool" where
  "marginsNotBelowMinus100 s =
     list_all (\<lambda>d. - 100 \<le> orDefaultMargin (doc_margin_percent d)) (outlets (db s))"

definition balancesSafe :: "exchange \<Rightarrow> bool" where
  "balancesSafe s \<longleftrightarrow> balancesNonNegative s \<and> marginsNotBelowMinus100 s"

text \<open>
  An outlet that sells below cost: margin -150, balance 1, and 10 units of \<open>P\<close> in
  stock.
\<close>

definition discounter :: exchange where
  "discounter =
     \<lparr>db = \<lparr>outlets = [\<lparr>doc_outlet_id = ''o1'', doc_outlet_name = ''Corner'',
                         doc_location = ''North'', doc_balance = 1,
                         doc_margin_percent = Some (- 150), doc_outlet_open = Some True,
                         doc_created_at = 0\<rparr>],
             orders = []\<rparr>,
      salesStatsCache = [],
      inventoryCache = [(''o1'', [(''P'', 10)])]\<rparr>"

text \<open>A run of the three operations from the scenario's shop, all with positive quantities.\<close>

definition busyDay :: "operation list" where
  "busyDay =
     [Trade \<lparr>sellerOutletId = ''supplier-factory'', buyerOutletId = ''o1'',
             ev_donutTypeId = ''P'', ev_quantity = 5, totalAmount = 10\<rparr>,
      Sell storeUp ''o1'' ''P'' 4,
      Remove ''o1'' ''P'' 2,
      Sell storeUp ''o1'' ''Q'' 1]"

section \<open>Outlet listings and the leaderboard\<close>

record OutletStats =
  st_outletId :: string
  st_outletName :: string
  st_balance :: rat
  st_customerSalesRevenue :: rat
  st_customerSalesCount :: rat
  st_exchangeSalesRevenue :: rat
  st_exchangeSalesCount :: rat
  netProfit :: rat
  averageMargin :: rat

definition getAllOutlets :: "bool \<Rightarrow> exchange \<Rightarrow> error + Outlet list" where
  "getAllOutlets readOk s =
     (case OutletRepository_findAll (queryAllOutlets readOk (db s)) of
        Inl e \<Rightarrow> Inl e
      | Inr outlets' \<Rightarrow> Inr (filter (\<lambda>t. outletId t \<noteq> ''supplier-factory'') outlets'))"

text \<open>
  The \<open>map\<close> of \<open>getLeaderboard\<close>: each outlet's entry is built from its stats, and
  \<open>getOrCreateStats\<close> may add an entry to the stats cache on the way.
\<close>

fun leaderboardEntries :: "exchange \<Rightarrow> Outlet list \<Rightarrow> OutletStats list \<times> exchange" where
  "leaderboardEntries s [] = ([], s)"
| "leaderboardEntries s (outlet # rest) =
     (let (stats, s1) = getOrCreateStats s (outletId outlet);
          netProfit' = balance outlet - 10000;
          entry = \<lparr>st_outletId = outletId outlet,
                   st_outletName = outletName outlet,
                   st_balance = balance outlet,
                   st_customerSalesRevenue = customerSalesRevenue stats,
                   st_customerSalesCount = customerSalesCount stats,
                   st_exchangeSalesRevenue = exchangeSalesRevenue stats,
                   st_exchangeSalesCount = exchangeSalesCount stats,
                   netProfit = netProfit',
                   averageMargin = marginPercent outlet\<rparr>;
          (entries, s2) = leaderboardEntries s1 rest
      in (entry # entries, s2))"

text \<open>
  \<open>leaderboard.sort((a, b) => b.netProfit - a.netProfit)\<close>: \<open>Array.prototype.sort\<close> is a
  stable sort, here descending in \<open>netProfit\<close>, which is \<open>sort_key\<close> on the negated key.
\<close>

definition getLeaderboard :: "bool \<Rightarrow> exchange \<Rightarrow> (error + OutletStats list) \<times> exchange" where
  "getLeaderboard readOk s =
     (case OutletRepository_findAll (queryAllOutlets readOk (db s)) of
        Inl e \<Rightarrow> (Inl e, s)
      | Inr outlets' \<Rightarrow>
          (let retailOutlets = filter (\<lambda>t. outletId t \<noteq> ''supplier-factory'') outlets';
               (leaderboard, s') = leaderboardEntries s retailOutlets
           in (Inr (sort_key (\<lambda>a. - netProfit a) leaderboard), s')))"

text \<open>A market of three outlets and the supplier factory, with different balances.\<close>

definition market :: exchange where
  "market =
     \<lparr>db = \<lparr>outlets =
              [\<lparr>doc_outlet_id = ''o1'', doc_outlet_name = ''Corner'', doc_location = ''North'',
                doc_balance = 9000, doc_margin_percent = Some 25,
                doc_outlet_open = Some True, doc_created_at = 0\<rparr>,
               \<lparr>doc_outlet_id = ''supplier-factory'', doc_outlet_name = ''Factory'',
                doc_location = ''Plant'', doc_balance = 50000, doc_margin_percent = Some 0,
                doc_outlet_open = Some True, doc_created_at = 0\<rparr>,
               \<lparr>doc_outlet_id = ''o2'', doc_outlet_name = ''Plaza'', doc_location = ''South'',
                doc_balance = 12000, doc_margin_percent = Some 30,
                doc_outlet_open = Some True, doc_created_at = 0\<rparr>,
               \<lparr>doc_outlet_id = ''o3'', doc_outlet_name = ''Pier'', doc_location = ''East'',
                doc_balance = 10000, doc_margin_percent = None,
                doc_outlet_open = None, doc_created_at = 0\<rparr>],
             orders = []\<rparr>,
      salesStatsCache = [],
      inventoryCache = []\<rparr>"

section \<open>Orders: \<open>OrderRepository\<close>\<close>

record Order =
  ord_orderId :: string
  ord_side :: OrderSide
  ord_donutTypeId :: string
  ord_quantity :: rat
  ord_pricePerUnit :: rat
  ord_status :: OrderStatus
  ord_outletId :: string
  ord_createdAt :: int
  ord_updatedAt :: int

text \<open>
  The request of \<open>createOrder\<close> (\<open>CreateOrderRequest\<close> of \<open>models/types.ts\<close>), with the
  fields \<open>OrderRepository.create\<close> reads.
\<close>

record CreateOrderRequest =
  req_side :: OrderSide
  req_donutTypeId :: string
  req_outletId :: string
  req_quantity :: rat
  req_pricePerUnit :: rat

text \<open>
  \<open>OrderRepository.create\<close>. Its transaction inserts the order and then one
  \<open>order-placement\<close> for every outlet with the request's outlet id, so the rows the read
  queries see are one per such outlet. \<open>orderId\<close> and \<open>now\<close> come from the clock and
  the random generator.
\<close>

definition OrderRepository_create ::
    "bool \<Rightarrow> string \<Rightarrow> int \<Rightarrow> store \<Rightarrow> CreateOrderRequest \<Rightarrow> (error + Order) \<times> store" where
  "OrderRepository_create txOk orderId now st order =
     (if txOk
      then (Inr \<lparr>ord_orderId = orderId,
                 ord_side = req_side order,
                 ord_donutTypeId = req_donutTypeId order,
                 ord_quantity = req_quantity order,
                 ord_pricePerUnit = req_pricePerUnit order,
                 ord_status = ACTIVE,
                 ord_outletId = req_outletId order,
                 ord_createdAt = now,
                 ord_updatedAt = now\<rparr>,
            st\<lparr>orders := orders st @
               map (\<lambda>outlet.
                      \<lparr>row_orderId = orderId,
                       row_side = req_side order,
                       row_donutTypeId = req_donutTypeId order,
                       row_outletId = req_outletId order,
                       row_quantity = req_quantity order,
                       row_pricePerUnit = req_pricePerUnit order,
                       row_status = ACTIVE,
                       row_createdAt = now,
                       row_updatedAt = now\<rparr>)
                   (filter (\<lambda>d. doc_outlet_id d = req_outletId order) (outlets st))\<rparr>)
      else (Inl StoreError, st))"

text \<open>
  \<open>OrderRepository.findById\<close>: the first row with the id; a failed read is caught and
  answered with \<open>null\<close>. \<open>createOrder\<close> calls it after \<open>create\<close>, when the
  repository has its query helper.
\<close>

definition OrderRepository_findById :: "bool \<Rightarrow> store \<Rightarrow> string \<Rightarrow> Order option" where
  "OrderRepository_findById readOk st orderId =
     (if readOk
      then (case filter (\<lambda>r. row_orderId r = orderId) (orders st) of
              [] \<Rightarrow> None
            | doc # _ \<Rightarrow>
                Some \<lparr>ord_orderId = row_orderId doc,
                      ord_side = row_side doc,
                      ord_donutTypeId = row_donutTypeId doc,
                      ord_quantity = row_quantity doc,
                      ord_pricePerUnit = row_pricePerUnit doc,
                      ord_status = row_status doc,
                      ord_outletId = row_outletId doc,
                      ord_createdAt = row_createdAt doc,
                      ord_updatedAt = row_updatedAt doc\<rparr>)
      else None)"

subsection \<open>The order book snapshot\<close>

text \<open>A document of the two order queries of \<open>getOrderBook\<close>, and the entry made of it.\<close>

record order_doc =
  od_orderId :: string
  od_outletId :: string
  od_quantity :: rat
  od_pricePerUnit :: rat
  od_status :: OrderStatus
  od_createdAt :: int

record OrderBookEntry =
  entry_orderId :: string
  entry_outletId :: string
  entry_quantity :: rat
  pricePerUnit :: rat
  status :: OrderStatus
  entry_createdAt :: int

record OrderBook =
  donutTypeId :: string
  buyOrders :: "OrderBookEntry list"
  sellOrders :: "OrderBookEntry list"

definition parseStatus :: "OrderStatus \<Rightarrow> OrderStatus" where
  "parseStatus st = st"

definition entryOfDoc :: "order_doc \<Rightarrow> OrderBookEntry" where
  "entryOfDoc doc =
     \<lparr>entry_orderId = od_orderId doc,
      entry_outletId = od_outletId doc,
      entry_quantity = od_quantity doc,
      pricePerUnit = od_pricePerUnit doc,
      status = parseStatus (od_status doc),
      entry_createdAt = od_createdAt doc\<rparr>"

definition isMatchable :: "OrderStatus \<Rightarrow> bool" where
  "isMatchable st \<longleftrightarrow> st = ACTIVE \<or> st = PARTIALLY_FILLED"

text \<open>
  The body of the \<open>try\<close> block of \<open>getOrderBook\<close>, given what the store answers to the
  sell query and to the buy query (\<open>Inl\<close>: the read is rejected). Both sides are sorted
  with \<open>(a, b) => b.createdAt.getTime() - a.createdAt.getTime()\<close>, a stable sort
  descending in \<open>createdAt\<close>.
\<close>

definition getOrderBook_try ::
    "string \<Rightarrow> bool \<Rightarrow> error + order_doc response \<Rightarrow> error + order_doc response
       \<Rightarrow> error + OrderBook" where
  "getOrderBook_try did includeAll sellAnswer buyAnswer =
     (case sellAnswer of
        Inl e \<Rightarrow> Inl e
      | Inr sellResponse \<Rightarrow>
          (case buyAnswer of
             Inl e \<Rightarrow> Inl e
           | Inr buyResponse \<Rightarrow>
               (let sellOrders' = (if answerType sellResponse = conceptDocuments
                                   then map entryOfDoc (answers sellResponse) else []);
                    buyOrders' = (if answerType buyResponse = conceptDocuments
                                  then map entryOfDoc (answers buyResponse) else []);
                    filteredSellOrders = (if includeAll then sellOrders'
                                          else filter (\<lambda>t. isMatchable (status t)) sellOrders');
                    filteredBuyOrders = (if includeAll then buyOrders'
                                         else filter (\<lambda>t. isMatchable (status t)) buyOrders')
                in Inr \<lparr>donutTypeId = did,
                        buyOrders = sort_key (\<lambda>a. - entry_createdAt a) filteredBuyOrders,
                        sellOrders = sort_key (\<lambda>a. - entry_createdAt a) filteredSellOrders\<rparr>)))"

text \<open>
  \<open>getHelper\<close>: the repository keeps the query helper once it has made one, and
  \<open>helper\<close> says whether it has. \<open>TypeDBConnection\<close> and \<open>TransactionHelper\<close> are not
  among the sources: what \<open>getDriver\<close>, \<open>getDatabaseName\<close> and the constructor yield is
  the input \<open>connection\<close>, \<open>Inl\<close> when one of them throws. The result is the helper or
  the error, and whether the repository has a helper afterwards.
\<close>

definition getHelper :: "bool \<Rightarrow> error + unit \<Rightarrow> (error + unit) \<times> bool" where
  "getHelper helper connection =
     (if \<not> helper
      then (case connection of
              Inl e \<Rightarrow> (Inl e, helper)
            | Inr made \<Rightarrow> (Inr made, True))
      else (Inr (), helper))"

text \<open>
  \<open>OrderRepository.getOrderBook\<close>: the helper is obtained first, outside the \<open>try\<close>,
  so an error there reaches the caller; the \<open>catch\<close> answers any error of the body with
  an empty book. The reads of the body go through the helper, and \<open>sellAnswer\<close> and
  \<open>buyAnswer\<close> are what they answer.
\<close>

definition getOrderBook ::
    "bool \<Rightarrow> error + unit \<Rightarrow> string \<Rightarrow> bool \<Rightarrow> error + order_doc response
       \<Rightarrow> error + order_doc response \<Rightarrow> (error + OrderBook) \<times> bool" where
  "getOrderBook helper connection did includeAll sellAnswer buyAnswer =
     (case getHelper helper connection of
        (Inl e, helper') \<Rightarrow> (Inl e, helper')
      | (Inr _, helper') \<Rightarrow>
          (case getOrderBook_try did includeAll sellAnswer buyAnswer of
             Inl e \<Rightarrow> (Inr \<lparr>donutTypeId = did, buyOrders = [], sellOrders = []\<rparr>, helper')
           | Inr book \<Rightarrow> (Inr book, helper')))"

text \<open>Answers of the store to an order query: documents, and no documents.\<close>

definition documents :: "order_doc list \<Rightarrow> error + order_doc response" where
  "documents docs = Inr \<lparr>answerType = conceptDocuments, answers = docs\<rparr>"

definition emptyAnswer :: "error + order_doc response" where
  "emptyAnswer = Inr \<lparr>answerType = conceptDocuments, answers = []\<rparr>"

text \<open>The derived stores \<open>bestBid\<close> and \<open>bestAsk\<close> of the front end (\<open>stores.ts\<close>).\<close>

definition bestBid :: "OrderBook option \<Rightarrow> OrderBookEntry option" where
  "bestBid orderBook =
     (case orderBook of
        None \<Rightarrow> None
      | Some book \<Rightarrow> (case buyOrders book of [] \<Rightarrow> None | first # _ \<Rightarrow> Some first))"

definition bestAsk :: "OrderBook option \<Rightarrow> OrderBookEntry option" where
  "bestAsk orderBook =
     (case orderBook of
        None \<Rightarrow> None
      | Some book \<Rightarrow> (case sellOrders book of [] \<Rightarrow> None | first # _ \<Rightarrow> Some first))"

text \<open>
  The order of the specification's book: bids ascending by \<open>(-price, createdAt)\<close>, asks
  ascending by \<open>(price, createdAt)\<close>.
\<close>

definition bidsBestFirst :: "OrderBookEntry list \<Rightarrow> bool" where
  "bidsBestFirst xs =
     sorted_wrt (\<lambda>a b. pricePerUnit b < pricePerUnit a
                      \<or> (pricePerUnit a = pricePerUnit b \<and> entry_createdAt a \<le> entry_createdAt b)) xs"

definition asksBestFirst :: "OrderBookEntry list \<Rightarrow> bool" where
  "asksBestFirst xs =
     sorted_wrt (\<lambda>a b. pricePerUnit a < pricePerUnit b
                      \<or> (pricePerUnit a = pricePerUnit b \<and> entry_createdAt a \<le> entry_createdAt b)) xs"

text \<open>Two resting bids: the older one at 3.00, the newer one at 2.00.\<close>

definition twoBids :: "order_doc list" where
  "twoBids =
     [\<lparr>od_orderId = ''order-1'', od_outletId = ''o1'', od_quantity = 5,
       od_pricePerUnit = 3, od_status = ACTIVE, od_createdAt = 1\<rparr>,
      \<lparr>od_orderId = ''order-2'', od_outletId = ''o2'', od_quantity = 5,
       od_pricePerUnit = 2, od_status = ACTIVE, od_createdAt = 2\<rparr>]"

text \<open>Two resting asks: the older one at 4.00, the newer one at 5.00.\<close>

definition twoAsks :: "order_doc list" where
  "twoAsks =
     [\<lparr>od_orderId = ''order-8'', od_outletId = ''supplier-factory'', od_quantity = 5,
       od_pricePerUnit = 4, od_status = ACTIVE, od_createdAt = 1\<rparr>,
      \<lparr>od_orderId = ''order-9'', od_outletId = ''supplier-factory'', od_quantity = 5,
       od_pricePerUnit = 5, od_status = ACTIVE, od_createdAt = 2\<rparr>]"

text \<open>Asks of every status.\<close>

definition fourAsks :: "order_doc list" where
  "fourAsks =
     [\<lparr>od_orderId = ''order-3'', od_outletId = ''supplier-factory'', od_quantity = 10,
       od_pricePerUnit = 2, od_status = FILLED, od_createdAt = 1\<rparr>,
      \<lparr>od_orderId = ''order-4'', od_outletId = ''supplier-factory'', od_quantity = 10,
       od_pricePerUnit = 2, od_status = PARTIALLY_FILLED, od_createdAt = 2\<rparr>,
      \<lparr>od_orderId = ''order-5'', od_outletId = ''supplier-factory'', od_quantity = 10,
       od_pricePerUnit = 2, od_status = CANCELLED, od_createdAt = 3\<rparr>,
      \<lparr>od_orderId = ''order-6'', od_outletId = ''supplier-factory'', od_quantity = 10,
       od_pricePerUnit = 2, od_status = ACTIVE, od_createdAt = 4\<rparr>]"

section \<open>Order submission: \<open>ExchangeService.createOrder\<close>\<close>

text \<open>
  What one call of \<open>createOrder\<close> meets outside the service. \<open>DonutTypeRepository\<close> is
  not among the sources: \<open>donutTypeAnswer\<close> is what its \<open>findById\<close> answers, \<open>Inr True\<close>
  for a donut type, \<open>Inr False\<close> for \<open>null\<close>.
\<close>

record order_env =
  outletLookupOk :: bool
  donutTypeAnswer :: "error + bool"
  orderTxOk :: bool
  newOrderId :: string
  orderTime :: int
  orderReadOk :: bool

text \<open>
  \<open>createOrder\<close>. The matching engine is not among the sources: \<open>processOrder\<close> is a
  parameter, giving the service after matching and the error it raised, if any. The
  order book broadcast that follows is not awaited, catches its own errors and writes
  nothing, so it is left out.
\<close>

definition createOrder ::
    "order_env \<Rightarrow> (exchange \<Rightarrow> Order \<Rightarrow> error option \<times> exchange) \<Rightarrow> exchange
       \<Rightarrow> CreateOrderRequest \<Rightarrow> (error + Order) \<times> exchange" where
  "createOrder env processOrder s request =
     (case OutletRepository_findById (req_outletId request)
             (queryOutletById (outletLookupOk env) (db s) (req_outletId request)) of
        Inl e \<Rightarrow> (Inl e, s)
      | Inr None \<Rightarrow> (Inl OutletNotFound, s)
      | Inr (Some outlet) \<Rightarrow>
          (case donutTypeAnswer env of
             Inl e \<Rightarrow> (Inl e, s)
           | Inr False \<Rightarrow> (Inl (DonutTypeNotFound (req_donutTypeId request)), s)
           | Inr True \<Rightarrow>
               (case OrderRepository_create (orderTxOk env) (newOrderId env) (orderTime env)
                       (db s) request of
                  (Inl e, _) \<Rightarrow> (Inl e, s)
                | (Inr order, db') \<Rightarrow>
                    (case processOrder (s\<lparr>db := db'\<rparr>) order of
                       (Some e, s') \<Rightarrow> (Inl e, s')
                     | (None, s') \<Rightarrow>
                         (Inr (case OrderRepository_findById (orderReadOk env) (db s')
                                      (ord_orderId order) of
                                 None \<Rightarrow> order
                               | Some found \<Rightarrow> found), s')))))"

text \<open>
  Modelled from the spec: the matcher (\<open>MatchingEngine.processOrder\<close>, not among the
  sources) on a book whose opposite side is empty. Its loop breaks at once ("if opposite
  is None: break") and the order stays resting as it was placed.
\<close>

definition matchNothing :: "exchange \<Rightarrow> Order \<Rightarrow> error option \<times> exchange" where
  "matchNothing s order = (None, s)"

text \<open>The scenario's shop with its outlet closed, and a bid it submits.\<close>

definition closedShop :: exchange where
  "closedShop =
     \<lparr>db = \<lparr>outlets = [\<lparr>doc_outlet_id = ''o1'', doc_outlet_name = ''Corner'',
                         doc_location = ''North'', doc_balance = 100,
                         doc_margin_percent = Some 25, doc_outlet_open = Some False,
                         doc_created_at = 0\<rparr>],
             orders = []\<rparr>,
      salesStatsCache = [],
      inventoryCache = [(''o1'', [(''P'', 10)])]\<rparr>"

definition aBid :: CreateOrderRequest where
  "aBid = \<lparr>req_side = BUY, req_donutTypeId = ''P'', req_outletId = ''o1'',
           req_quantity = 5, req_pricePerUnit = 2\<rparr>"

definition allUp :: order_env where
  "allUp = \<lparr>outletLookupOk = True, donutTypeAnswer = Inr True, orderTxOk = True,
            newOrderId = ''order-7'', orderTime = 7, orderReadOk = True\<rparr>"

section \<open>An outlet created with margin zero\<close>

definition zeroMargin :: OutletInput where
  "zeroMargin = \<lparr>in_outletId = ''o9'', in_outletName = ''Kiosk'', in_location = ''West'',
                  in_balance = 10000, in_marginPercent = 0, in_isOpen = Some True\<rparr>"

definition emptyStore :: store where
  "emptyStore = \<lparr>outlets = [], orders = []\<rparr>"

section \<open>Verified properties\<close>

subsection \<open>Customer sales\<close>

lemma inv_updateCache_same:
  "getInventoryFromCache (updateCache s oid did q) oid did = q"
  by (simp add: getInventoryFromCache_def updateCache_def Let_def AList.update_conv'
      split: option.splits)

lemma db_updateCache [simp]: "db (updateCache s oid did q) = db s"
  by (simp add: updateCache_def Let_def)

lemma stats_updateCache [simp]: "salesStatsCache (updateCache s oid did q) = salesStatsCache s"
  by (simp add: updateCache_def Let_def)

lemma findById_Some_readOk:
  "OutletRepository_findById oid (queryOutletById b st oid) = Inr x \<Longrightarrow> b"
  by (cases b) (simp_all add: OutletRepository_findById_def queryOutletById_def)

lemma findById_updateBalance:
  assumes "OutletRepository_findById oid (queryOutletById True st oid) = Inr (Some outlet)"
  shows "OutletRepository_findById oid (queryOutletById True
           (st\<lparr>outlets := map (\<lambda>d. if doc_outlet_id d = oid then d\<lparr>doc_balance := b\<rparr> else d)
                              (outlets st)\<rparr>) oid)
         = Inr (Some (outlet\<lparr>balance := b\<rparr>))"
proof (cases "filter (\<lambda>d. doc_outlet_id d = oid) (outlets st)")
  case Nil
  with assms show ?thesis
    by (simp add: OutletRepository_findById_def queryOutletById_def)
next
  case (Cons a rest)
  then have "a \<in> set (filter (\<lambda>d. doc_outlet_id d = oid) (outlets st))"
    by simp
  then have "doc_outlet_id a = oid"
    by simp
  with assms Cons show ?thesis
    by (auto simp add: OutletRepository_findById_def queryOutletById_def outletOfDoc_def
        filter_map comp_def)
qed

text \<open>
  The whole effect of a sale that passes both checks, when the store takes the balance
  write: the sale record and the service afterwards.
\<close>

lemma sellToCustomer_success:
  assumes found: "OutletRepository_findById oid (queryOutletById (outletReadOk env) (db s) oid)
                    = Inr (Some outlet)"
    and wr: "balanceWriteOk env"
    and enough: "quantity \<le> getInventoryFromCache s oid did"
  shows "sellToCustomer env s oid did quantity =
     (Inr \<lparr>sale_saleId = newSaleId env, sale_outletId = oid, sale_donutTypeId = did,
           sale_quantity = quantity, costBasis = 2 * quantity,
           revenue = 2 * quantity * (1 + marginPercent outlet / 100),
           profit = 2 * quantity * (1 + marginPercent outlet / 100) - 2 * quantity,
           sale_executedAt = saleTime env\<rparr>,
      \<lparr>db = (db s)\<lparr>outlets := map (\<lambda>d. if doc_outlet_id d = oid
                 then d\<lparr>doc_balance :=
                        balance outlet + 2 * quantity * (1 + marginPercent outlet / 100)\<rparr>
                 else d) (outlets (db s))\<rparr>,
       salesStatsCache = AList.update oid
          ((statsOf s oid)\<lparr>customerSalesRevenue := customerSalesRevenue (statsOf s oid)
                 + 2 * quantity * (1 + marginPercent outlet / 100),
             customerSalesCount := customerSalesCount (statsOf s oid) + 1\<rparr>)
          (salesStatsCache s),
       inventoryCache =
         inventoryCache (updateCache s oid did (getInventoryFromCache s oid did - quantity))\<rparr>)"
  using assms
  by (auto simp add: sellToCustomer_def Let_def removeInventory_def statsOf_def
      OutletRepository_updateBalance_def getOrCreateStats_def split: option.splits)

lemma shop_findById:
  "OutletRepository_findById ''o1'' (queryOutletById True (db shop) ''o1'') =
     Inr (Some \<lparr>outletId = ''o1'', outletName = ''Corner'', location = ''North'',
                balance = 100, marginPercent = 25, isOpen = True, createdAt = 0\<rparr>)"
  by (simp add: shop_def OutletRepository_findById_def queryOutletById_def outletOfDoc_def
      orDefaultMargin_def orDefaultOpen_def)

lemma shop_inventory: "getInventoryFromCache shop ''o1'' ''P'' = 10"
  by (simp add: shop_def getInventoryFromCache_def)

text \<open>
  C1. A call of \<open>sellToCustomer\<close> on an outlet the repository finds, with margin
  \<open>marginPercent outlet\<close> and at least \<open>quantity\<close> units of the product in its
  inventory cell, returns a sale with cost basis \<open>2 * quantity\<close>, revenue
  \<open>costBasis * (1 + marginPercent / 100)\<close> and profit \<open>revenue - costBasis\<close>; afterwards
  the inventory cell is lower by exactly \<open>quantity\<close> and the balance of the outlet higher
  by exactly the revenue. The store is taken to accept the balance write.
\<close>

theorem sellToCustomer_sale:
  assumes "OutletRepository_findById oid (queryOutletById (outletReadOk env) (db s) oid)
             = Inr (Some outlet)"
    and "balanceWriteOk env"
    and "quantity \<le> getInventoryFromCache s oid did"
  shows "\<exists>sale s'. sellToCustomer env s oid did quantity = (Inr sale, s')
           \<and> costBasis sale = 2 * quantity
           \<and> revenue sale = costBasis sale * (1 + marginPercent outlet / 100)
           \<and> profit sale = revenue sale - costBasis sale
           \<and> getInventoryFromCache s' oid did = getInventoryFromCache s oid did - quantity
           \<and> OutletRepository_findById oid (queryOutletById True (db s') oid)
               = Inr (Some (outlet\<lparr>balance := balance outlet + revenue sale\<rparr>))"
proof -
  have rd: "outletReadOk env"
    using assms(1) by (rule findById_Some_readOk)
  have inv: "getInventoryFromCache
        \<lparr>db = d, salesStatsCache = c,
         inventoryCache = inventoryCache (updateCache s oid did q)\<rparr> oid did = q" for d c q
    using inv_updateCache_same [of s oid did q]
    by (simp add: getInventoryFromCache_def)
  show ?thesis
    using assms(1) rd
    by (simp add: sellToCustomer_success [OF assms] inv findById_updateBalance)
qed

theorem sellToCustomer_sale_witness:
  "\<exists>sale s'. sellToCustomer storeUp shop ''o1'' ''P'' 4 = (Inr sale, s')
     \<and> costBasis sale = 8 \<and> revenue sale = 10 \<and> profit sale = 2
     \<and> getInventoryFromCache s' ''o1'' ''P'' = 6
     \<and> OutletRepository_findById ''o1'' (queryOutletById True (db s') ''o1'')
         = Inr (Some \<lparr>outletId = ''o1'', outletName = ''Corner'', location = ''North'',
                       balance = 110, marginPercent = 25, isOpen = True, createdAt = 0\<rparr>)"
proof -
  have "\<exists>sale s'. sellToCustomer storeUp shop ''o1'' ''P'' 4 = (Inr sale, s')
     \<and> costBasis sale = 2 * 4 \<and> revenue sale = costBasis sale * (1 + 25 / 100)
     \<and> profit sale = revenue sale - costBasis sale
     \<and> getInventoryFromCache s' ''o1'' ''P'' = 10 - 4
     \<and> OutletRepository_findById ''o1'' (queryOutletById True (db s') ''o1'')
         = Inr (Some \<lparr>outletId = ''o1'', outletName = ''Corner'', location = ''North'',
                       balance = 100 + revenue sale, marginPercent = 25, isOpen = True,
                       createdAt = 0\<rparr>)"
    using sellToCustomer_sale [of "''o1''" storeUp shop _ 4 "''P''"]
    by (simp add: shop_findById shop_inventory storeUp_def)
  then obtain sale s' where h: "sellToCustomer storeUp shop ''o1'' ''P'' 4 = (Inr sale, s')"
      "costBasis sale = 2 * 4" "revenue sale = costBasis sale * (1 + 25 / 100)"
      "profit sale = revenue sale - costBasis sale"
      "getInventoryFromCache s' ''o1'' ''P'' = 10 - 4"
      "OutletRepository_findById ''o1'' (queryOutletById True (db s') ''o1'')
         = Inr (Some \<lparr>outletId = ''o1'', outletName = ''Corner'', location = ''North'',
                       balance = 100 + revenue sale, marginPercent = 25, isOpen = True,
                       createdAt = 0\<rparr>)"
    by blast
  have "costBasis sale = 8" "revenue sale = 10" "profit sale = 2"
    using h(2,3,4) by simp_all
  with h show ?thesis
    by simp
qed

text \<open>
  C2. When the inventory cell holds strictly less than the requested quantity, the call
  raises an error and the service afterwards is the service before: inventory, balances
  and sales stats are unchanged. This holds whatever the store answers.
\<close>

theorem sellToCustomer_insufficient:
  assumes "getInventoryFromCache s oid did < quantity"
  shows "\<exists>e. sellToCustomer env s oid did quantity = (Inl e, s)"
  using assms
  by (auto simp add: sellToCustomer_def Let_def split: sum.splits option.splits)

theorem sellToCustomer_insufficient_witness:
  "sellToCustomer storeUp shop ''o1'' ''P'' 11 = (Inl (InsufficientInventory 10 ''P'' 11), shop)"
proof -
  have "getInventoryFromCache shop ''o1'' ''P'' < 11"
    by (simp add: shop_inventory)
  from sellToCustomer_insufficient [OF this, of storeUp]
  obtain e where e: "sellToCustomer storeUp shop ''o1'' ''P'' 11 = (Inl e, shop)"
    by blast
  moreover have "fst (sellToCustomer storeUp shop ''o1'' ''P'' 11)
                   = Inl (InsufficientInventory 10 ''P'' 11)"
    by (simp add: sellToCustomer_def shop_findById shop_inventory storeUp_def)
  ultimately show ?thesis
    by simp
qed


lemma statsOf_update:
  "statsOf \<lparr>db = d, salesStatsCache = AList.update oid x c, inventoryCache = i\<rparr> oid = x"
  by (simp add: statsOf_def getOrCreateStats_def AList.update_conv')

text \<open>
  C3, as the code has it. \<open>sellToCustomer\<close> does not look at the sign of the quantity.
  With a quantity of zero or less, on an outlet the repository finds whose inventory cell
  is not negative, and a store that accepts the balance write, the call raises no error:
  it returns a sale with cost basis \<open>2 * quantity\<close>, leaves the inventory cell at
  \<open>available - quantity\<close>, and counts one more customer sale for the outlet.
\<close>

theorem sellToCustomer_nonpositive:
  assumes "quantity \<le> 0"
    and "OutletRepository_findById oid (queryOutletById (outletReadOk env) (db s) oid)
           = Inr (Some outlet)"
    and "balanceWriteOk env"
    and "0 \<le> getInventoryFromCache s oid did"
  shows "\<exists>sale s'. sellToCustomer env s oid did quantity = (Inr sale, s')
           \<and> costBasis sale = 2 * quantity
           \<and> getInventoryFromCache s' oid did = getInventoryFromCache s oid did - quantity
           \<and> customerSalesCount (statsOf s' oid) = customerSalesCount (statsOf s oid) + 1"
proof -
  have enough: "quantity \<le> getInventoryFromCache s oid did"
    using assms(1,4) by simp
  have inv: "getInventoryFromCache
        \<lparr>db = d, salesStatsCache = c,
         inventoryCache = inventoryCache (updateCache s oid did q)\<rparr> oid did = q" for d c q
    using inv_updateCache_same [of s oid did q]
    by (simp add: getInventoryFromCache_def)
  show ?thesis
    by (simp add: sellToCustomer_success [OF assms(2,3) enough] inv statsOf_update)
qed

theorem sellToCustomer_nonpositive_witness:
  "\<exists>sale s'. sellToCustomer storeUp shop ''o1'' ''P'' (- 2) = (Inr sale, s')
           \<and> costBasis sale = - 4
           \<and> getInventoryFromCache s' ''o1'' ''P'' = 12
           \<and> customerSalesCount (statsOf s' ''o1'') = 1"
proof -
  have count: "customerSalesCount (statsOf shop ''o1'') = 0"
    by (simp add: statsOf_def getOrCreateStats_def shop_def Let_def)
  have "\<exists>sale s'. sellToCustomer storeUp shop ''o1'' ''P'' (- 2) = (Inr sale, s')
           \<and> costBasis sale = 2 * (- 2)
           \<and> getInventoryFromCache s' ''o1'' ''P'' = 10 - (- 2)
           \<and> customerSalesCount (statsOf s' ''o1'') = 0 + 1"
    using sellToCustomer_nonpositive [of "- 2" "''o1''" storeUp shop _ "''P''"]
    by (simp add: shop_findById shop_inventory storeUp_def count)
  then show ?thesis
    by simp
qed

text \<open>
  The claim of C3 as it is written fails: a sale of \<open>-3\<close> units is accepted. It returns a
  sale record, raises the inventory cell from 10 to 13, lowers the balance from 100 to
  92.5 and counts a customer sale.
\<close>

theorem sellToCustomer_negative_accepted:
  "sellToCustomer storeUp shop ''o1'' ''P'' (- 3) =
     (Inr \<lparr>sale_saleId = ''sale-1'', sale_outletId = ''o1'', sale_donutTypeId = ''P'',
           sale_quantity = - 3, costBasis = - 6, revenue = - (15 / 2), profit = - (3 / 2),
           sale_executedAt = 1\<rparr>,
      \<lparr>db = \<lparr>outlets = [\<lparr>doc_outlet_id = ''o1'', doc_outlet_name = ''Corner'',
                          doc_location = ''North'', doc_balance = 185 / 2,
                          doc_margin_percent = Some 25, doc_outlet_open = Some True,
                          doc_created_at = 0\<rparr>],
              orders = []\<rparr>,
       salesStatsCache = [(''o1'', \<lparr>customerSalesRevenue = - (15 / 2), customerSalesCount = 1,
                                   exchangeSalesRevenue = 0, exchangeSalesCount = 0\<rparr>)],
       inventoryCache = [(''o1'', [(''P'', 13)])]\<rparr>)"
  by (simp add: sellToCustomer_def shop_findById shop_inventory storeUp_def Let_def
      removeInventory_def OutletRepository_updateBalance_def)
    (simp add: shop_def getOrCreateStats_def updateCache_def Let_def)

subsection \<open>Non-negative inventory and balances\<close>


lemma list_all_update:
  "list_all P al \<Longrightarrow> P (k, v) \<Longrightarrow> list_all P (AList.update k v al)"
  by (induction al) auto

lemma inventoryNonNegative_get:
  "inventoryNonNegative s \<Longrightarrow> 0 \<le> getInventoryFromCache s oid did"
  by (auto simp add: inventoryNonNegative_def getInventoryFromCache_def list_all_iff
      split: option.splits dest!: map_of_SomeD)

lemma inventoryNonNegative_updateCache:
  assumes "inventoryNonNegative s" "0 \<le> q"
  shows "inventoryNonNegative (updateCache s oid did q)"
proof -
  let ?P = "\<lambda>(oid, cells). list_all (\<lambda>(did, q::rat). 0 \<le> q) cells"
  let ?c = "case map_of (inventoryCache s) oid of
              None \<Rightarrow> AList.update oid [] (inventoryCache s) | Some _ \<Rightarrow> inventoryCache s"
  let ?m = "case map_of ?c oid of None \<Rightarrow> [] | Some m \<Rightarrow> m"
  have c: "list_all ?P ?c"
    using assms(1) by (auto simp add: inventoryNonNegative_def intro!: list_all_update split: option.splits)
  have "list_all (\<lambda>(did, q::rat). 0 \<le> q) ?m"
  proof (cases "map_of ?c oid")
    case None then show ?thesis by simp
  next
    case (Some m)
    then have "(oid, m) \<in> set ?c" by (rule map_of_SomeD)
    with c have "list_all (\<lambda>(did, q::rat). 0 \<le> q) m" by (auto simp add: list_all_iff)
    with Some show ?thesis by simp
  qed
  then have "list_all (\<lambda>(did, q::rat). 0 \<le> q) (AList.update did q ?m)"
    using assms(2) by (auto intro!: list_all_update)
  then have "list_all ?P (AList.update oid (AList.update did q ?m) ?c)"
    using c by (auto intro!: list_all_update)
  then show ?thesis
    by (simp add: inventoryNonNegative_def updateCache_def Let_def)
qed


lemma findById_Some_doc:
  assumes "OutletRepository_findById oid (queryOutletById b st oid) = Inr (Some outlet)"
  shows "\<exists>d \<in> set (outlets st). outlet = outletOfDoc oid d"
proof (cases "filter (\<lambda>d. doc_outlet_id d = oid) (outlets st)")
  case Nil
  with assms show ?thesis
    by (simp add: OutletRepository_findById_def queryOutletById_def split: if_splits)
next
  case (Cons a rest)
  then have "a \<in> set (filter (\<lambda>d. doc_outlet_id d = oid) (outlets st))"
    by simp
  then have "a \<in> set (outlets st)"
    by simp
  moreover have "outlet = outletOfDoc oid a"
    using assms Cons
    by (simp add: OutletRepository_findById_def queryOutletById_def split: if_splits)
  ultimately show ?thesis
    by blast
qed


lemma inventoryNonNegative_cache:
  "inventoryCache s' = inventoryCache s \<Longrightarrow> inventoryNonNegative s' = inventoryNonNegative s"
  by (simp add: inventoryNonNegative_def)

lemma inventoryCache_getOrCreateStats [simp]:
  "inventoryCache (snd (getOrCreateStats s oid)) = inventoryCache s"
  by (simp add: getOrCreateStats_def Let_def split: option.splits)

lemma db_getOrCreateStats [simp]:
  "db (snd (getOrCreateStats s oid)) = db s"
  by (simp add: getOrCreateStats_def Let_def split: option.splits)

lemma inventoryNonNegative_trade:
  assumes "inventoryNonNegative s" "0 < ev_quantity event"
  shows "inventoryNonNegative (onTradeExecuted s event)"
proof -
  obtain st s1 where g: "getOrCreateStats s (sellerOutletId event) = (st, s1)"
    by (cases "getOrCreateStats s (sellerOutletId event)")
  have "inventoryCache s1 = inventoryCache s"
    using inventoryCache_getOrCreateStats [of s "sellerOutletId event"] g by simp
  then have inv: "inventoryNonNegative (s1\<lparr>salesStatsCache := c\<rparr>)" for c
    using assms(1) by (simp add: inventoryNonNegative_def)
  have "0 \<le> getInventoryFromCache (s1\<lparr>salesStatsCache := c\<rparr>) oid did" for c oid did
    using inv by (rule inventoryNonNegative_get)
  then show ?thesis
    using inv assms(2) g
    by (simp add: onTradeExecuted_def Let_def addInventory_def inventoryNonNegative_updateCache)
qed

lemma inventoryNonNegative_remove:
  assumes "inventoryNonNegative s"
  shows "inventoryNonNegative (snd (removeInventory s oid did quantity))"
  using assms
  by (simp add: removeInventory_def Let_def inventoryNonNegative_updateCache)

text \<open>What a customer sale leaves in the inventory cache and in the store, in every branch.\<close>

lemma sellToCustomer_inventoryCache:
  "inventoryCache (snd (sellToCustomer env s oid did quantity)) = inventoryCache s
   \<or> (\<not> getInventoryFromCache s oid did < quantity
      \<and> inventoryCache (snd (sellToCustomer env s oid did quantity))
          = inventoryCache (updateCache s oid did (getInventoryFromCache s oid did - quantity)))"
  by (auto simp add: sellToCustomer_def Let_def removeInventory_def split_beta
      OutletRepository_updateBalance_def split: sum.splits option.splits)

lemma sellToCustomer_db:
  "db (snd (sellToCustomer env s oid did quantity)) = db s
   \<or> (\<exists>outlet. OutletRepository_findById oid (queryOutletById (outletReadOk env) (db s) oid)
                  = Inr (Some outlet)
        \<and> db (snd (sellToCustomer env s oid did quantity))
            = (db s)\<lparr>outlets := map (\<lambda>d. if doc_outlet_id d = oid
                 then d\<lparr>doc_balance :=
                        balance outlet + 2 * quantity * (1 + marginPercent outlet / 100)\<rparr>
                 else d) (outlets (db s))\<rparr>)"
  by (auto simp add: sellToCustomer_def Let_def removeInventory_def split_beta
      OutletRepository_updateBalance_def split: sum.splits option.splits)

lemma inventoryNonNegative_sell:
  assumes "inventoryNonNegative s"
  shows "inventoryNonNegative (snd (sellToCustomer env s oid did quantity))"
proof -
  let ?s' = "snd (sellToCustomer env s oid did quantity)"
  let ?left = "getInventoryFromCache s oid did - quantity"
  consider "inventoryCache ?s' = inventoryCache s"
    | "\<not> getInventoryFromCache s oid did < quantity"
      "inventoryCache ?s' = inventoryCache (updateCache s oid did ?left)"
    using sellToCustomer_inventoryCache [of env s oid did quantity] by blast
  then show ?thesis
  proof cases
    case 1
    from inventoryNonNegative_cache [OF 1] assms show ?thesis
      by simp
  next
    case 2
    have "inventoryNonNegative (updateCache s oid did ?left)"
      using assms 2(1) by (intro inventoryNonNegative_updateCache) simp_all
    with inventoryNonNegative_cache [OF 2(2)] show ?thesis
      by simp
  qed
qed

lemma inventoryNonNegative_perform:
  "inventoryNonNegative s \<Longrightarrow> 0 < quantityOf x \<Longrightarrow> inventoryNonNegative (perform s x)"
  by (cases x)
    (simp_all add: inventoryNonNegative_trade inventoryNonNegative_remove
      inventoryNonNegative_sell)

lemma inventoryNonNegative_observed:
  "inventoryNonNegative s \<Longrightarrow> list_all (\<lambda>x. 0 < quantityOf x) xs \<Longrightarrow>
   list_all inventoryNonNegative (observed s xs)"
  by (induction xs arbitrary: s) (simp_all add: inventoryNonNegative_perform)

lemma balancesSafe_db:
  "db s' = db s \<Longrightarrow> balancesSafe s' = balancesSafe s"
  by (simp add: balancesSafe_def balancesNonNegative_def marginsNotBelowMinus100_def)

lemma db_onTradeExecuted: "db (onTradeExecuted s event) = db s"
proof -
  have "db (snd (getOrCreateStats s (sellerOutletId event))) = db s"
    by simp
  then show ?thesis
    by (simp add: onTradeExecuted_def Let_def addInventory_def split_beta)
qed

lemma db_removeInventory: "db (snd (removeInventory s oid did quantity)) = db s"
  by (simp add: removeInventory_def Let_def)

lemma revenue_not_negative:
  fixes quantity m :: rat
  assumes "0 < quantity" "- 100 \<le> m"
  shows "0 \<le> 2 * quantity * (1 + m / 100)"
proof -
  have "0 \<le> 1 + m / 100"
    using assms(2) by simp
  moreover have "0 \<le> 2 * quantity"
    using assms(1) by simp
  ultimately show ?thesis
    by (rule mult_nonneg_nonneg [rotated])
qed

lemma balancesSafe_sell:
  assumes safe: "balancesSafe s" and pos: "0 < quantity"
  shows "balancesSafe (snd (sellToCustomer env s oid did quantity))"
proof -
  let ?s' = "snd (sellToCustomer env s oid did quantity)"
  consider "db ?s' = db s"
    | outlet where
      "OutletRepository_findById oid (queryOutletById (outletReadOk env) (db s) oid)
         = Inr (Some outlet)"
      "db ?s' = (db s)\<lparr>outlets := map (\<lambda>d. if doc_outlet_id d = oid
                 then d\<lparr>doc_balance :=
                        balance outlet + 2 * quantity * (1 + marginPercent outlet / 100)\<rparr>
                 else d) (outlets (db s))\<rparr>"
    using sellToCustomer_db [of env s oid did quantity] by blast
  then show ?thesis
  proof cases
    case 1
    from balancesSafe_db [OF 1] safe show ?thesis
      by simp
  next
    case 2
    from 2(1) obtain d where d: "d \<in> set (outlets (db s))" "outlet = outletOfDoc oid d"
      using findById_Some_doc by blast
    have "0 \<le> balance outlet" and "- 100 \<le> marginPercent outlet"
      using safe d
      by (auto simp add: balancesSafe_def balancesNonNegative_def marginsNotBelowMinus100_def
          list_all_iff outletOfDoc_def)
    then have "0 \<le> balance outlet + 2 * quantity * (1 + marginPercent outlet / 100)"
      using revenue_not_negative [OF pos, of "marginPercent outlet"] by simp
    with safe 2(2) show ?thesis
      by (auto simp add: balancesSafe_def balancesNonNegative_def marginsNotBelowMinus100_def
          list_all_iff)
  qed
qed

lemma balancesSafe_perform:
  assumes "balancesSafe s" "0 < quantityOf x"
  shows "balancesSafe (perform s x)"
proof (cases x)
  case (Trade event)
  with assms(1) balancesSafe_db [OF db_onTradeExecuted, of s event] show ?thesis
    by simp
next
  case (Remove oid did quantity)
  with assms(1) balancesSafe_db [OF db_removeInventory, of s oid did quantity] show ?thesis
    by simp
next
  case (Sell env oid did quantity)
  with assms show ?thesis
    by (simp add: balancesSafe_sell)
qed

lemma balancesSafe_observed:
  "balancesSafe s \<Longrightarrow> list_all (\<lambda>x. 0 < quantityOf x) xs \<Longrightarrow>
   list_all balancesSafe (observed s xs)"
  by (induction xs arbitrary: s) (simp_all add: balancesSafe_perform)

text \<open>
  C8, as the code has it. From a state in which every inventory cell and every balance
  is non-negative, every state observed along a run of trade events, inventory removals
  and customer sales with positive quantities has every inventory cell non-negative, also
  as \<open>getInventoryFromCache\<close> reads it; and when no outlet has a margin below -100, every
  outlet balance is non-negative in every observed state as well. A sale whose balance
  write the store rejects ends in the state between the inventory debit and the balance
  credit, which is among the states observed.
\<close>

theorem nonNegative_in_every_observed_state:
  assumes "inventoryNonNegative s" and "balancesNonNegative s"
    and "list_all (\<lambda>x. 0 < quantityOf x) xs"
  shows "list_all (\<lambda>s'. inventoryNonNegative s'
                       \<and> (\<forall>oid did. 0 \<le> getInventoryFromCache s' oid did))
           (observed s xs)
         \<and> (marginsNotBelowMinus100 s \<longrightarrow> list_all balancesNonNegative (observed s xs))"
proof -
  have "list_all inventoryNonNegative (observed s xs)"
    using assms(1,3) by (rule inventoryNonNegative_observed)
  then have cells: "list_all (\<lambda>s'. inventoryNonNegative s'
                       \<and> (\<forall>oid did. 0 \<le> getInventoryFromCache s' oid did)) (observed s xs)"
    by (auto simp add: list_all_iff inventoryNonNegative_get)
  have "list_all balancesNonNegative (observed s xs)" if "marginsNotBelowMinus100 s"
  proof -
    have "balancesSafe s"
      using assms(2) that by (simp add: balancesSafe_def)
    then have "list_all balancesSafe (observed s xs)"
      using assms(3) by (rule balancesSafe_observed)
    then show ?thesis
      by (auto simp add: list_all_iff balancesSafe_def)
  qed
  with cells show ?thesis
    by blast
qed

theorem nonNegative_in_every_observed_state_witness:
  "list_all (\<lambda>s'. inventoryNonNegative s'
                 \<and> (\<forall>oid did. 0 \<le> getInventoryFromCache s' oid did))
     (observed shop busyDay)
   \<and> list_all balancesNonNegative (observed shop busyDay)
   \<and> length (observed shop busyDay) = 5"
proof -
  have h1: "inventoryNonNegative shop"
    by (simp add: inventoryNonNegative_def shop_def)
  have h2: "balancesNonNegative shop"
    by (simp add: balancesNonNegative_def shop_def)
  have h3: "marginsNotBelowMinus100 shop"
    by (simp add: marginsNotBelowMinus100_def shop_def orDefaultMargin_def)
  have h4: "list_all (\<lambda>x. 0 < quantityOf x) busyDay"
    by (simp add: busyDay_def)
  have "length (observed shop busyDay) = 5"
    by (simp add: busyDay_def)
  with nonNegative_in_every_observed_state [OF h1 h2 h4] h3 show ?thesis
    by simp
qed

lemma discounter_findById:
  "OutletRepository_findById ''o1'' (queryOutletById True (db discounter) ''o1'') =
     Inr (Some \<lparr>outletId = ''o1'', outletName = ''Corner'', location = ''North'',
                balance = 1, marginPercent = - 150, isOpen = True, createdAt = 0\<rparr>)"
  by (simp add: discounter_def OutletRepository_findById_def queryOutletById_def outletOfDoc_def
      orDefaultMargin_def orDefaultOpen_def)

lemma discounter_inventory: "getInventoryFromCache discounter ''o1'' ''P'' = 10"
  by (simp add: discounter_def getInventoryFromCache_def)

lemma discounter_sale:
  "map doc_balance (outlets (db (perform discounter (Sell storeUp ''o1'' ''P'' 4)))) = [- 3]"
proof -
  have "balanceWriteOk storeUp" "outletReadOk storeUp"
    by (simp_all add: storeUp_def)
  then show ?thesis
    using discounter_findById discounter_inventory
    by (simp add: sellToCustomer_success
          [where outlet = "\<lparr>outletId = ''o1'', outletName = ''Corner'', location = ''North'',
                balance = 1, marginPercent = - 150, isOpen = True, createdAt = 0\<rparr>"])
      (simp add: discounter_def)
qed

text \<open>
  The claim of C8 as it is written fails in its balance half: the outlet of
  \<open>discounter\<close> has non-negative cells and balance, and one customer sale of 4 units,
  a positive quantity, takes its balance from 1 to -3.
\<close>

theorem sale_below_cost_overdraws:
  "inventoryNonNegative discounter
   \<and> balancesNonNegative discounter
   \<and> list_all (\<lambda>x. 0 < quantityOf x) [Sell storeUp ''o1'' ''P'' 4]
   \<and> map doc_balance (outlets (db (perform discounter (Sell storeUp ''o1'' ''P'' 4)))) = [- 3]
   \<and> \<not> list_all balancesNonNegative (observed discounter [Sell storeUp ''o1'' ''P'' 4])"
proof -
  have "\<not> balancesNonNegative (perform discounter (Sell storeUp ''o1'' ''P'' 4))"
    using discounter_sale by (auto simp add: balancesNonNegative_def list_all_iff)
  then show ?thesis
    using discounter_sale
    by (simp add: inventoryNonNegative_def balancesNonNegative_def discounter_def)
qed


subsection \<open>Leaderboard and outlet listing\<close>


lemma leaderboardEntries_view:
  "map (\<lambda>e. (st_outletId e, st_balance e, netProfit e)) (fst (leaderboardEntries s os))
     = map (\<lambda>t. (outletId t, balance t, balance t - 10000)) os"
  by (induction os arbitrary: s) (simp_all add: Let_def split_beta)

lemma sorted_wrt_descending:
  "sorted (map (\<lambda>a. - netProfit a) xs) \<Longrightarrow> sorted_wrt (\<lambda>a b. netProfit b \<le> netProfit a) xs"
  by (simp add: sorted_wrt_map)

text \<open>
  C7. When the store answers the outlet query with the outlets \<open>all\<close>, \<open>getLeaderboard\<close>
  returns one entry for each outlet of \<open>all\<close> whose id is not \<open>supplier-factory\<close> and no
  other (as multisets of id, balance and net profit), each with
  \<open>netProfit = balance - 10000\<close>, in descending order of \<open>netProfit\<close>; \<open>getAllOutlets\<close>
  returns the outlets of \<open>all\<close> whose id is not \<open>supplier-factory\<close>; the sentinel is in
  neither result.
\<close>

theorem getLeaderboard_retail_sorted:
  assumes "OutletRepository_findAll (queryAllOutlets readOk (db s)) = Inr all"
  shows "\<exists>lb s'. getLeaderboard readOk s = (Inr lb, s')
           \<and> mset (map (\<lambda>e. (st_outletId e, st_balance e, netProfit e)) lb)
               = mset (map (\<lambda>t. (outletId t, balance t, balance t - 10000))
                         (filter (\<lambda>t. outletId t \<noteq> ''supplier-factory'') all))
           \<and> sorted_wrt (\<lambda>a b. netProfit b \<le> netProfit a) lb
           \<and> getAllOutlets readOk s = Inr (filter (\<lambda>t. outletId t \<noteq> ''supplier-factory'') all)
           \<and> ''supplier-factory'' \<notin> st_outletId ` set lb
           \<and> ''supplier-factory'' \<notin> outletId ` set (filter (\<lambda>t. outletId t \<noteq> ''supplier-factory'') all)"
proof -
  let ?retail = "filter (\<lambda>t. outletId t \<noteq> ''supplier-factory'') all"
  let ?lb = "sort_key (\<lambda>a. - netProfit a) (fst (leaderboardEntries s ?retail))"
  have run: "getLeaderboard readOk s = (Inr ?lb, snd (leaderboardEntries s ?retail))"
    using assms by (simp add: getLeaderboard_def Let_def split_beta)
  have "mset ?lb = mset (fst (leaderboardEntries s ?retail))"
    by simp
  then have "mset (map (\<lambda>e. (st_outletId e, st_balance e, netProfit e)) ?lb)
      = mset (map (\<lambda>e. (st_outletId e, st_balance e, netProfit e)) (fst (leaderboardEntries s ?retail)))"
    by (metis mset_map)
  then have view: "mset (map (\<lambda>e. (st_outletId e, st_balance e, netProfit e)) ?lb)
      = mset (map (\<lambda>t. (outletId t, balance t, balance t - 10000)) ?retail)"
    by (simp only: leaderboardEntries_view)
  have srt: "sorted_wrt (\<lambda>a b. netProfit b \<le> netProfit a) ?lb"
    by (rule sorted_wrt_descending) (rule sorted_sort_key)
  have "st_outletId ` set ?lb = fst ` set (map (\<lambda>e. (st_outletId e, st_balance e, netProfit e)) ?lb)"
    by (simp add: image_image)
  also have "\<dots> = fst ` set_mset (mset (map (\<lambda>e. (st_outletId e, st_balance e, netProfit e)) ?lb))"
    by simp
  also have "\<dots> = fst ` set (map (\<lambda>t. (outletId t, balance t, balance t - 10000)) ?retail)"
    by (simp only: view set_mset_mset)
  also have "\<dots> = outletId ` set ?retail"
    by (simp add: image_image)
  finally have ids: "st_outletId ` set ?lb = outletId ` set ?retail" .
  have nof: "''supplier-factory'' \<notin> outletId ` set ?retail"
    by auto
  show ?thesis
    using run view srt ids nof assms
    by (simp add: getAllOutlets_def)
qed

lemma market_findAll:
  "OutletRepository_findAll (queryAllOutlets True (db market)) =
     Inr [\<lparr>outletId = ''o1'', outletName = ''Corner'', location = ''North'', balance = 9000,
            marginPercent = 25, isOpen = True, createdAt = 0\<rparr>,
          \<lparr>outletId = ''supplier-factory'', outletName = ''Factory'', location = ''Plant'',
            balance = 50000, marginPercent = 25, isOpen = True, createdAt = 0\<rparr>,
          \<lparr>outletId = ''o2'', outletName = ''Plaza'', location = ''South'', balance = 12000,
            marginPercent = 30, isOpen = True, createdAt = 0\<rparr>,
          \<lparr>outletId = ''o3'', outletName = ''Pier'', location = ''East'', balance = 10000,
            marginPercent = 25, isOpen = True, createdAt = 0\<rparr>]"
  by (simp add: market_def OutletRepository_findAll_def queryAllOutlets_def outletOfDoc_def
      orDefaultMargin_def orDefaultOpen_def)

lemma market_leaderboard:
  "map (\<lambda>e. (st_outletId e, netProfit e)) (projr (fst (getLeaderboard True market)))
     = [(''o2'', 2000), (''o3'', 0), (''o1'', - 1000)]"
  by (simp add: getLeaderboard_def market_findAll Let_def split_beta)

theorem getLeaderboard_retail_sorted_witness:
  "\<exists>lb s'. getLeaderboard True market = (Inr lb, s')
     \<and> mset (map (\<lambda>e. (st_outletId e, st_balance e, netProfit e)) lb)
         = {#(''o1'', 9000, - 1000), (''o2'', 12000, 2000), (''o3'', 10000, 0)#}
     \<and> sorted_wrt (\<lambda>a b. netProfit b \<le> netProfit a) lb
     \<and> map outletId (projr (getAllOutlets True market)) = [''o1'', ''o2'', ''o3'']
     \<and> ''supplier-factory'' \<notin> st_outletId ` set lb"
  using getLeaderboard_retail_sorted [OF market_findAll]
  by (auto simp add: add_mset_commute)


subsection \<open>The order book snapshot\<close>

lemma getHelper_obtained:
  "fst (getHelper helper connection) = Inr () \<longleftrightarrow> helper \<or> connection = Inr ()"
  by (cases connection) (simp_all add: getHelper_def)

lemma getOrderBook_documents:
  assumes "fst (getHelper helper connection) = Inr ()"
  shows "fst (getOrderBook helper connection did includeAll (documents sellDocs)
                (documents buyDocs)) =
     Inr \<lparr>donutTypeId = did,
          buyOrders = sort_key (\<lambda>a. - entry_createdAt a)
            (if includeAll then map entryOfDoc buyDocs
             else filter (\<lambda>t. isMatchable (status t)) (map entryOfDoc buyDocs)),
          sellOrders = sort_key (\<lambda>a. - entry_createdAt a)
            (if includeAll then map entryOfDoc sellDocs
             else filter (\<lambda>t. isMatchable (status t)) (map entryOfDoc sellDocs))\<rparr>"
  using assms
  by (cases "getHelper helper connection")
    (simp add: getOrderBook_def getOrderBook_try_def documents_def Let_def)

lemma fresh_helper: "fst (getHelper False (Inr ())) = Inr ()"
  by (simp add: getHelper_def)

text \<open>
  The book of the two bids and the two asks, asked of a repository that obtains its
  helper: on each side the newer order comes first, the bid at 2.00 before the bid at
  3.00 and the ask at 5.00 before the ask at 4.00.
\<close>

lemma twoSided_book:
  "fst (getOrderBook False (Inr ()) ''P'' False (documents twoAsks) (documents twoBids)) =
     Inr \<lparr>donutTypeId = ''P'',
          buyOrders =
            [\<lparr>entry_orderId = ''order-2'', entry_outletId = ''o2'', entry_quantity = 5,
              pricePerUnit = 2, status = ACTIVE, entry_createdAt = 2\<rparr>,
             \<lparr>entry_orderId = ''order-1'', entry_outletId = ''o1'', entry_quantity = 5,
              pricePerUnit = 3, status = ACTIVE, entry_createdAt = 1\<rparr>],
          sellOrders =
            [\<lparr>entry_orderId = ''order-9'', entry_outletId = ''supplier-factory'',
              entry_quantity = 5, pricePerUnit = 5, status = ACTIVE, entry_createdAt = 2\<rparr>,
             \<lparr>entry_orderId = ''order-8'', entry_outletId = ''supplier-factory'',
              entry_quantity = 5, pricePerUnit = 4, status = ACTIVE, entry_createdAt = 1\<rparr>]\<rparr>"
  by (simp add: getOrderBook_documents [OF fresh_helper] twoBids_def twoAsks_def entryOfDoc_def
      parseStatus_def isMatchable_def)

text \<open>
  C5. The snapshot is sorted newest first on both sides, not by price. In the book above
  the bids are not in the order (-price, createdAt) and the asks are not in the order
  (price, createdAt); \<open>bestBid\<close> and \<open>bestAsk\<close> of the front end, which take the first
  entry of each side as the best one, show 2.00 and 5.00 although a bid at 3.00 and an
  ask at 4.00 rest in the book.
\<close>

theorem getOrderBook_newest_first:
  "\<not> bidsBestFirst
        (buyOrders (projr (fst (getOrderBook False (Inr ()) ''P'' False
                                  (documents twoAsks) (documents twoBids)))))
   \<and> \<not> asksBestFirst
        (sellOrders (projr (fst (getOrderBook False (Inr ()) ''P'' False
                                   (documents twoAsks) (documents twoBids)))))
   \<and> map entry_orderId
        (buyOrders (projr (fst (getOrderBook False (Inr ()) ''P'' False
                                  (documents twoAsks) (documents twoBids)))))
       = [''order-2'', ''order-1'']
   \<and> map entry_orderId
        (sellOrders (projr (fst (getOrderBook False (Inr ()) ''P'' False
                                   (documents twoAsks) (documents twoBids)))))
       = [''order-9'', ''order-8'']
   \<and> map_option pricePerUnit
        (bestBid (Some (projr (fst (getOrderBook False (Inr ()) ''P'' False
                                      (documents twoAsks) (documents twoBids))))))
       = Some 2
   \<and> map_option pricePerUnit
        (bestAsk (Some (projr (fst (getOrderBook False (Inr ()) ''P'' False
                                      (documents twoAsks) (documents twoBids))))))
       = Some 5"
  by (simp add: twoSided_book bidsBestFirst_def asksBestFirst_def bestBid_def bestAsk_def)

text \<open>
  C6. For the orders of a product the store returns to a repository that has obtained its
  helper, the snapshot without terminal orders holds, on each side, exactly the entries
  whose status is \<open>ACTIVE\<close> or \<open>PARTIALLY_FILLED\<close> (as multisets) and no \<open>FILLED\<close> or
  \<open>CANCELLED\<close> entry; the snapshot with \<open>includeAll\<close> holds every order of each side.
\<close>

theorem getOrderBook_status_filter:
  assumes "fst (getHelper helper connection) = Inr ()"
  shows "\<exists>live whole.
      fst (getOrderBook helper connection did False (documents sellDocs) (documents buyDocs))
        = Inr live
    \<and> mset (sellOrders live)
        = mset (filter (\<lambda>t. status t = ACTIVE \<or> status t = PARTIALLY_FILLED)
                  (map entryOfDoc sellDocs))
    \<and> mset (buyOrders live)
        = mset (filter (\<lambda>t. status t = ACTIVE \<or> status t = PARTIALLY_FILLED)
                  (map entryOfDoc buyDocs))
    \<and> filter (\<lambda>t. status t = FILLED \<or> status t = CANCELLED)
         (sellOrders live @ buyOrders live) = []
    \<and> fst (getOrderBook helper connection did True (documents sellDocs) (documents buyDocs))
        = Inr whole
    \<and> mset (sellOrders whole) = mset (map entryOfDoc sellDocs)
    \<and> mset (buyOrders whole) = mset (map entryOfDoc buyDocs)"
  by (auto simp add: getOrderBook_documents [OF assms] isMatchable_def filter_empty_conv)

theorem getOrderBook_status_filter_witness:
  "\<exists>live whole.
      fst (getOrderBook False (Inr ()) ''P'' False (documents fourAsks) (documents twoBids))
        = Inr live
    \<and> map entry_orderId (sellOrders live) = [''order-6'', ''order-4'']
    \<and> map entry_orderId (buyOrders live) = [''order-2'', ''order-1'']
    \<and> fst (getOrderBook False (Inr ()) ''P'' True (documents fourAsks) (documents twoBids))
        = Inr whole
    \<and> map entry_orderId (sellOrders whole) = [''order-6'', ''order-5'', ''order-4'', ''order-3'']
    \<and> map entry_orderId (buyOrders whole) = [''order-2'', ''order-1'']"
proof -
  from getOrderBook_status_filter [OF fresh_helper, of "''P''" fourAsks twoBids]
  obtain live whole where
    "fst (getOrderBook False (Inr ()) ''P'' False (documents fourAsks) (documents twoBids))
       = Inr live"
    "fst (getOrderBook False (Inr ()) ''P'' True (documents fourAsks) (documents twoBids))
       = Inr whole"
    by blast
  then show ?thesis
    by (auto simp add: getOrderBook_documents [OF fresh_helper] fourAsks_def twoBids_def
        entryOfDoc_def parseStatus_def isMatchable_def)
qed

text \<open>
  C9, as the code has it. For every product id and flag, when \<open>getHelper\<close> returns a
  helper (the one the repository keeps, or a new one from the connection),
  \<open>getOrderBook\<close> returns a book and raises nothing, whatever the store answers; when
  either read fails, the book has the given product id and two empty sides, and is the
  book returned for a store without orders. When \<open>getHelper\<close> throws, which happens
  before the \<open>try\<close>, \<open>getOrderBook\<close> raises that error to its caller.
\<close>

theorem getOrderBook_raises_only_before_try:
  "(fst (getHelper helper connection) = Inr () \<longrightarrow>
      (\<exists>book. fst (getOrderBook helper connection did includeAll sellAnswer buyAnswer)
                = Inr book)
    \<and> (isl sellAnswer \<or> isl buyAnswer \<longrightarrow>
          fst (getOrderBook helper connection did includeAll sellAnswer buyAnswer)
            = Inr \<lparr>donutTypeId = did, buyOrders = [], sellOrders = []\<rparr>
        \<and> fst (getOrderBook helper connection did includeAll sellAnswer buyAnswer)
            = fst (getOrderBook helper connection did includeAll emptyAnswer emptyAnswer)))
   \<and> (fst (getHelper helper connection) = Inl e \<longrightarrow>
        fst (getOrderBook helper connection did includeAll sellAnswer buyAnswer) = Inl e)"
  by (cases "getHelper helper connection")
    (auto simp add: getOrderBook_def getOrderBook_try_def emptyAnswer_def Let_def
      split: sum.splits)

theorem getOrderBook_raises_only_before_try_witness:
  "fst (getOrderBook False (Inr ()) ''P'' True (Inl StoreError) (documents twoBids))
     = Inr \<lparr>donutTypeId = ''P'', buyOrders = [], sellOrders = []\<rparr>
   \<and> fst (getOrderBook False (Inr ()) ''P'' True (Inl StoreError) (documents twoBids))
     = fst (getOrderBook False (Inr ()) ''P'' True emptyAnswer emptyAnswer)
   \<and> fst (getOrderBook False (Inl ConnectionError) ''P'' True (documents fourAsks)
            (documents twoBids))
     = Inl ConnectionError"
proof -
  have failed: "isl (Inl StoreError :: error + order_doc response) \<or> isl (documents twoBids)"
    by simp
  have thrown: "fst (getHelper False (Inl ConnectionError)) = Inl ConnectionError"
    by (simp add: getHelper_def)
  from getOrderBook_raises_only_before_try
         [of False "Inr ()" "''P''" True "Inl StoreError" "documents twoBids"]
       fresh_helper failed
  have "fst (getOrderBook False (Inr ()) ''P'' True (Inl StoreError) (documents twoBids))
          = Inr \<lparr>donutTypeId = ''P'', buyOrders = [], sellOrders = []\<rparr>
        \<and> fst (getOrderBook False (Inr ()) ''P'' True (Inl StoreError) (documents twoBids))
          = fst (getOrderBook False (Inr ()) ''P'' True emptyAnswer emptyAnswer)"
    by blast
  moreover from getOrderBook_raises_only_before_try
         [of False "Inl ConnectionError" "''P''" True "documents fourAsks" "documents twoBids"
             ConnectionError]
       thrown
  have "fst (getOrderBook False (Inl ConnectionError) ''P'' True (documents fourAsks)
               (documents twoBids)) = Inl ConnectionError"
    by blast
  ultimately show ?thesis
    by blast
qed

text \<open>
  The claim of C9 as it is written fails: a repository that has no helper yet and whose
  connection throws raises the error to the caller of \<open>getOrderBook\<close>, and returns no
  book.
\<close>

theorem getOrderBook_helper_throws:
  "getOrderBook False (Inl ConnectionError) ''P'' False emptyAnswer emptyAnswer
     = (Inl ConnectionError, False)"
  by (simp add: getOrderBook_def getHelper_def)


subsection \<open>Order submission\<close>

lemma closedShop_findById:
  "OutletRepository_findById ''o1'' (queryOutletById True (db closedShop) ''o1'') =
     Inr (Some \<lparr>outletId = ''o1'', outletName = ''Corner'', location = ''North'',
                balance = 100, marginPercent = 25, isOpen = False, createdAt = 0\<rparr>)"
  by (simp add: closedShop_def OutletRepository_findById_def queryOutletById_def outletOfDoc_def
      orDefaultMargin_def orDefaultOpen_def)

lemma findById_Some_nonempty:
  "OutletRepository_findById oid (queryOutletById b st oid) = Inr (Some outlet) \<Longrightarrow>
   filter (\<lambda>d. doc_outlet_id d = oid) (outlets st) \<noteq> []"
  by (auto simp add: OutletRepository_findById_def queryOutletById_def split: if_splits)

text \<open>
  C4, as the code has it. \<open>createOrder\<close> does not read \<open>isOpen\<close>. For a closed outlet
  the repository finds and a known donut type, when the store commits the insert and the
  matching engine raises nothing, the call raises no validation error: rows for the new
  order, with status \<open>ACTIVE\<close> and the outlet's id, are in the store before matching
  starts, and the call returns an order together with the service as the matching engine
  left it.
\<close>

theorem createOrder_closed_outlet:
  assumes "OutletRepository_findById (req_outletId request)
             (queryOutletById (outletLookupOk env) (db s) (req_outletId request))
             = Inr (Some outlet)"
    and "\<not> isOpen outlet"
    and "donutTypeAnswer env = Inr True"
    and "OrderRepository_create (orderTxOk env) (newOrderId env) (orderTime env) (db s) request
           = (Inr order, db')"
    and "processOrder (s\<lparr>db := db'\<rparr>) order = (None, s')"
  shows "\<exists>placed rows. createOrder env processOrder s request = (Inr placed, s')
           \<and> ord_status order = ACTIVE
           \<and> orders db' = orders (db s) @ rows \<and> rows \<noteq> []
           \<and> list_all (\<lambda>r. row_orderId r = newOrderId env
                             \<and> row_outletId r = req_outletId request
                             \<and> row_status r = ACTIVE) rows"
proof -
  have ne: "filter (\<lambda>d. doc_outlet_id d = req_outletId request) (outlets (db s)) \<noteq> []"
    using assms(1) by (rule findById_Some_nonempty)
  have run: "\<exists>placed. createOrder env processOrder s request = (Inr placed, s')"
    using assms(1,3,4,5) by (simp add: createOrder_def)
  have "ord_status order = ACTIVE"
    using assms(4) by (auto simp add: OrderRepository_create_def split: if_splits)
  moreover have "\<exists>rows. orders db' = orders (db s) @ rows \<and> rows \<noteq> []
           \<and> list_all (\<lambda>r. row_orderId r = newOrderId env
                             \<and> row_outletId r = req_outletId request
                             \<and> row_status r = ACTIVE) rows"
    using assms(4) ne
    by (auto simp add: OrderRepository_create_def list_all_iff split: if_splits)
  ultimately show ?thesis
    using run by blast
qed

theorem createOrder_closed_outlet_witness:
  "\<exists>placed rows. createOrder allUp matchNothing closedShop aBid
        = (Inr placed, closedShop\<lparr>db := snd (OrderRepository_create True ''order-7'' 7
                                              (db closedShop) aBid)\<rparr>)
     \<and> orders (snd (OrderRepository_create True ''order-7'' 7 (db closedShop) aBid))
         = orders (db closedShop) @ rows
     \<and> rows \<noteq> []
     \<and> list_all (\<lambda>r. row_orderId r = ''order-7'' \<and> row_outletId r = ''o1''
                      \<and> row_status r = ACTIVE) rows"
proof -
  let ?made = "OrderRepository_create True ''order-7'' 7 (db closedShop) aBid"
  obtain order where made: "?made = (Inr order, snd ?made)"
    by (simp add: OrderRepository_create_def)
  have h1: "OutletRepository_findById (req_outletId aBid)
              (queryOutletById (outletLookupOk allUp) (db closedShop) (req_outletId aBid))
              = Inr (Some \<lparr>outletId = ''o1'', outletName = ''Corner'', location = ''North'',
                   balance = 100, marginPercent = 25, isOpen = False, createdAt = 0\<rparr>)"
    by (simp add: aBid_def allUp_def closedShop_findById)
  have h2: "\<not> isOpen \<lparr>outletId = ''o1'', outletName = ''Corner'', location = ''North'',
                   balance = 100, marginPercent = 25, isOpen = False, createdAt = 0\<rparr>"
    by simp
  have h3: "donutTypeAnswer allUp = Inr True"
    by (simp add: allUp_def)
  have h4: "OrderRepository_create (orderTxOk allUp) (newOrderId allUp) (orderTime allUp)
              (db closedShop) aBid = (Inr order, snd ?made)"
    using made by (simp add: allUp_def)
  have h5: "matchNothing (closedShop\<lparr>db := snd ?made\<rparr>) order
              = (None, closedShop\<lparr>db := snd ?made\<rparr>)"
    by (simp add: matchNothing_def)
  from createOrder_closed_outlet [where processOrder = matchNothing, OF h1 h2 h3 h4 h5]
  show ?thesis
    by (simp add: allUp_def aBid_def)
qed

text \<open>
  The claim of C4 as it is written fails: the closed outlet of \<open>closedShop\<close> submits a
  bid, no error is raised, and the order is in the store with status \<open>ACTIVE\<close>.
\<close>

theorem createOrder_closed_outlet_accepted:
  "createOrder allUp matchNothing closedShop aBid =
     (Inr \<lparr>ord_orderId = ''order-7'', ord_side = BUY, ord_donutTypeId = ''P'',
           ord_quantity = 5, ord_pricePerUnit = 2, ord_status = ACTIVE,
           ord_outletId = ''o1'', ord_createdAt = 7, ord_updatedAt = 7\<rparr>,
      closedShop\<lparr>db := (db closedShop)\<lparr>orders :=
         [\<lparr>row_orderId = ''order-7'', row_side = BUY, row_donutTypeId = ''P'',
           row_outletId = ''o1'', row_quantity = 5, row_pricePerUnit = 2,
           row_status = ACTIVE, row_createdAt = 7, row_updatedAt = 7\<rparr>]\<rparr>\<rparr>)"
  by (simp add: createOrder_def allUp_def aBid_def closedShop_findById matchNothing_def
      OrderRepository_create_def OrderRepository_findById_def)
    (simp add: closedShop_def)


subsection \<open>The default margin\<close>

text \<open>What the reads do with a margin of zero: no outlet they return has margin zero.\<close>

lemma orDefaultMargin_nonzero: "orDefaultMargin m \<noteq> 0"
  by (simp add: orDefaultMargin_def split: option.splits)

lemma findById_margin_nonzero:
  "OutletRepository_findById oid answer = Inr (Some outlet) \<Longrightarrow> marginPercent outlet \<noteq> 0"
  by (auto simp add: OutletRepository_findById_def outletOfDoc_def orDefaultMargin_nonzero
      split: sum.splits if_splits)

lemma findAll_margin_nonzero:
  "OutletRepository_findAll answer = Inr found \<Longrightarrow> outlet \<in> set found \<Longrightarrow>
   marginPercent outlet \<noteq> 0"
  by (auto simp add: OutletRepository_findAll_def outletOfDoc_def orDefaultMargin_nonzero
      split: sum.splits if_splits)

lemma create_stores_nonzero_margin:
  "OutletRepository_create True now st outlet = (r, st') \<Longrightarrow>
   \<exists>d m. outlets st' = outlets st @ [d] \<and> doc_margin_percent d = Some m \<and> m \<noteq> 0"
  by (auto simp add: OutletRepository_create_def Let_def)

text \<open>
  C10. \<open>create\<close> with a margin of zero writes the default 25 to the store, and a later
  \<open>findById\<close> reads 25; the outlet \<open>create\<close> itself returns is its argument, with
  margin zero. So not every outlet returned by the repository has a margin other than
  zero.
\<close>

theorem create_returns_zero_margin:
  "OutletRepository_create True 5 emptyStore zeroMargin =
     (Inr (zeroMargin, 5),
      \<lparr>outlets = [\<lparr>doc_outlet_id = ''o9'', doc_outlet_name = ''Kiosk'',
                    doc_location = ''West'', doc_balance = 10000,
                    doc_margin_percent = Some 25, doc_outlet_open = Some True,
                    doc_created_at = 5\<rparr>],
       orders = []\<rparr>)
   \<and> in_marginPercent (fst (projr (fst (OutletRepository_create True 5 emptyStore zeroMargin))))
       = 0
   \<and> OutletRepository_findById ''o9''
        (queryOutletById True (snd (OutletRepository_create True 5 emptyStore zeroMargin)) ''o9'')
       = Inr (Some \<lparr>outletId = ''o9'', outletName = ''Kiosk'', location = ''West'',
                     balance = 10000, marginPercent = 25, isOpen = True, createdAt = 5\<rparr>)"
  by (simp add: OutletRepository_create_def emptyStore_def zeroMargin_def
      OutletRepository_findById_def queryOutletById_def outletOfDoc_def orDefaultMargin_def
      orDefaultOpen_def)

end
